theory Spec2Isabelle
  imports Complex_Main
begin

section \<open>The pendulum model of \<^verbatim>\<open>dynamics/pendulum.py\<close>\<close>

text \<open>
  Numbers are modelled as reals: the formulas are the ones the source evaluates, in exact
  arithmetic. The rounding of the single-precision tensors is not modelled; their range
  is, where a property is about finite values (\<open>float32_finite\<close> below).

  A batch is a matrix, given as the list of its rows. The combined input of the two
  Keras lambdas has the state in columns 0 and 1 and the control from column 2 on.
\<close>

datatype py_error = IndexError | ValueError

type_synonym matrix = "real list list"

text \<open>\<^verbatim>\<open>x[i, j]\<close>: an index outside the matrix raises.\<close>

definition item :: "matrix \<Rightarrow> nat \<Rightarrow> nat \<Rightarrow> py_error + real" where
  "item x i j =
     (if i < length x \<and> j < length (x ! i) then Inr (x ! i ! j) else Inl IndexError)"

text \<open>\<^verbatim>\<open>x[:, :n]\<close> and \<^verbatim>\<open>x[:, n:]\<close>: slices never raise.\<close>

definition cols_to :: "nat \<Rightarrow> matrix \<Rightarrow> matrix" where
  "cols_to n x = map (take n) x"

definition cols_from :: "nat \<Rightarrow> matrix \<Rightarrow> matrix" where
  "cols_from n x = map (drop n) x"

text \<open>A scalar combined with a matrix is broadcast over every entry.\<close>

definition broadcast :: "(real \<Rightarrow> real) \<Rightarrow> matrix \<Rightarrow> matrix" where
  "broadcast f x = map (map f) x"

text \<open>\<^verbatim>\<open>KK.concatenate([a, b])\<close> joins along the last axis: row by row.\<close>

definition concatenate :: "matrix \<Rightarrow> matrix \<Rightarrow> matrix" where
  "concatenate a b = map2 (@) a b"

text \<open>
  \<^verbatim>\<open>KK.mod\<close> is the backend's elementwise modulo. It is the floored modulo (the result
  has the sign of the divisor), as Python's \<^verbatim>\<open>%\<close> is.
\<close>

definition floormod :: "real \<Rightarrow> real \<Rightarrow> real" where
  "floormod a b = a - b * of_int \<lfloor>a / b\<rfloor>"

definition square :: "real \<Rightarrow> real" where
  "square v = v * v"

subsection \<open>\<^verbatim>\<open>pendulum_dynamics\<close>\<close>

definition pendulum_dynamics :: "matrix \<Rightarrow> py_error + matrix" where
  "pendulum_dynamics x_combined =
     (let x = cols_to 2 x_combined;
          u = cols_from 2 x_combined;
          g = 10;
          l = 1;
          m = 1;
          deltaT = 0.05
      in case item x 0 0 of
           Inl e \<Rightarrow> Inl e
         | Inr th \<Rightarrow>
             (case item x 0 1 of
                Inl e \<Rightarrow> Inl e
              | Inr thdot \<Rightarrow>
                  (let newthdot =
                         broadcast
                           (\<lambda>v. thdot + (- 3 * g / (2 * l) * sin (th + pi)
                                          + 3 / (m * square l) * v) * deltaT) u;
                       newth = broadcast (\<lambda>w. th + w * deltaT) newthdot
                   in Inr (concatenate newth newthdot))))"

subsection \<open>\<^verbatim>\<open>pendulum_cost\<close>\<close>

definition normalized_angle :: "real \<Rightarrow> real" where
  "normalized_angle th = floormod (th + pi) (2 * pi) - pi"

definition pendulum_cost :: "matrix \<Rightarrow> py_error + matrix" where
  "pendulum_cost x_combined =
     (let x = cols_to 2 x_combined;
          u = cols_from 2 x_combined
      in case item x 0 0 of
           Inl e \<Rightarrow> Inl e
         | Inr th \<Rightarrow>
             (case item x 0 1 of
                Inl e \<Rightarrow> Inl e
              | Inr thdot \<Rightarrow>
                  (let normalized_th = normalized_angle th
                   in Inr (broadcast
                             (\<lambda>v. square normalized_th + 0.1 * square thdot
                                    + 0.001 * square v) u))))"

subsection \<open>\<^verbatim>\<open>pendulum_goal_generator\<close> and \<^verbatim>\<open>pendulum_goal_checker\<close>\<close>

text \<open>\<^verbatim>\<open>np.random.randint(low, high)\<close> draws an integer from \<open>low\<close> up to \<open>high - 1\<close>.\<close>

definition randint :: "int \<Rightarrow> int \<Rightarrow> int set" where
  "randint low high = {low ..< high}"

text \<open>The generator, given its draw \<open>k\<close> of \<^verbatim>\<open>np.random.randint(-3, 4)\<close>.\<close>

definition pendulum_goal_generator :: "int \<Rightarrow> matrix" where
  "pendulum_goal_generator k = [[2 * pi * of_int k, 0]]"

text \<open>\<^verbatim>\<open>np.finfo('float32').eps\<close>\<close>

definition float32_eps :: real where
  "float32_eps = 1 / 2 ^ 23"

text \<open>
  The tensors are single precision: a number is finite there when it is within the largest
  finite single-precision number, \<^verbatim>\<open>np.finfo('float32').max\<close>; a result beyond it is
  infinite.
\<close>

definition float32_max :: real where
  "float32_max = (2 - 1 / 2 ^ 23) * 2 ^ 127"

definition float32_finite :: "real \<Rightarrow> bool" where
  "float32_finite v \<longleftrightarrow> \<bar>v\<bar> \<le> float32_max"

text \<open>
  What a call of the checker does: whether it stopped in \<^verbatim>\<open>ipdb.set_trace()\<close> first, and
  what it then returns or raises. Python's \<^verbatim>\<open>and\<close> reads \<^verbatim>\<open>x[0, 1]\<close> only when its left
  operand is true.
\<close>

record goal_check =
  debugger :: bool
  answer :: "py_error + bool"

definition pendulum_goal_checker :: "matrix \<Rightarrow> goal_check" where
  "pendulum_goal_checker x =
     \<lparr> debugger = (length x = 2),
       answer =
         (case item x 0 0 of
            Inl e \<Rightarrow> Inl e
          | Inr th \<Rightarrow>
              if 1 - cos th \<le> float32_eps
              then (case item x 0 1 of Inl e \<Rightarrow> Inl e | Inr thdot \<Rightarrow> Inr (thdot = 0))
              else Inr False) \<rparr>"

section \<open>The comparison harness\<close>

subsection \<open>NumPy arrays\<close>

text \<open>
  The harness moves the simulator's values through NumPy: an array is its shape and its
  entries in row-major order.
\<close>

datatype ndarray = NDArray (shape: "nat list") (data: "real list")

text \<open>A one-dimensional array, and a float seen as an array of no dimension.\<close>

definition np_array :: "real list \<Rightarrow> ndarray" where
  "np_array xs = NDArray [length xs] xs"

definition np_float :: "real \<Rightarrow> ndarray" where
  "np_float v = NDArray [] [v]"

text \<open>\<^verbatim>\<open>np.expand_dims(a, axis)\<close> and \<^verbatim>\<open>np.squeeze(a)\<close> change the shape only.\<close>

definition expand_dims :: "ndarray \<Rightarrow> nat \<Rightarrow> ndarray" where
  "expand_dims a axis = NDArray (take axis (shape a) @ [1] @ drop axis (shape a)) (data a)"

definition squeeze :: "ndarray \<Rightarrow> ndarray" where
  "squeeze a = NDArray (filter (\<lambda>d. d \<noteq> 1) (shape a)) (data a)"

text \<open>The index of position \<open>k\<close> in an array of shape \<open>s\<close>, and back.\<close>

fun unravel :: "nat list \<Rightarrow> nat \<Rightarrow> nat list" where
  "unravel [] k = []"
| "unravel (d # ds) k = (k div prod_list ds) mod d # unravel ds k"

definition ravel :: "nat list \<Rightarrow> nat list \<Rightarrow> nat" where
  "ravel s idx = foldl (\<lambda>acc (d, i). acc * d + i) 0 (zip s idx)"

text \<open>\<^verbatim>\<open>a.T\<close> reverses the axes; an array of one dimension is its own transpose.\<close>

definition np_T :: "ndarray \<Rightarrow> ndarray" where
  "np_T a =
     (let s = shape a
      in NDArray (rev s)
           (map (\<lambda>k. data a ! ravel s (rev (unravel (rev s) k))) [0 ..< prod_list (rev s)]))"

text \<open>
  Elementwise operations broadcast: the shapes are aligned at their last axis, and two
  aligned lengths must be equal or one of them 1. Other shapes raise.
\<close>

definition pad_shape :: "nat \<Rightarrow> nat list \<Rightarrow> nat list" where
  "pad_shape n s = replicate (n - length s) 1 @ s"

definition broadcast_shape :: "nat list \<Rightarrow> nat list \<Rightarrow> nat list option" where
  "broadcast_shape s1 s2 =
     (let n = max (length s1) (length s2);
          p1 = pad_shape n s1;
          p2 = pad_shape n s2
      in if list_all2 (\<lambda>a b. a = b \<or> a = 1 \<or> b = 1) p1 p2
         then Some (map2 (\<lambda>a b. if a = 1 then b else a) p1 p2)
         else None)"

definition broadcast_get :: "ndarray \<Rightarrow> nat list \<Rightarrow> real" where
  "broadcast_get a idx =
     (let p = pad_shape (length idx) (shape a)
      in data a ! ravel p (map2 (\<lambda>d i. if d = 1 then 0 else i) p idx))"

definition np_binop :: "(real \<Rightarrow> real \<Rightarrow> real) \<Rightarrow> ndarray \<Rightarrow> ndarray \<Rightarrow> py_error + ndarray" where
  "np_binop f a b =
     (case broadcast_shape (shape a) (shape b) of
        None \<Rightarrow> Inl ValueError
      | Some s \<Rightarrow>
          Inr (NDArray s
                 (map (\<lambda>k. f (broadcast_get a (unravel s k)) (broadcast_get b (unravel s k)))
                    [0 ..< prod_list s])))"

definition np_square :: "ndarray \<Rightarrow> ndarray" where
  "np_square a = NDArray (shape a) (map square (data a))"

definition np_sum :: "ndarray \<Rightarrow> real" where
  "np_sum a = sum_list (data a)"

subsection \<open>The Keras model of \<^verbatim>\<open>Pendulum.__init__\<close>\<close>

text \<open>
  The model has an input of shape \<open>(None, 2)\<close> for the state and one of shape
  \<open>(None, 1)\<close> for the control, concatenates them and applies the two lambdas.
  Keras is not part of the repository. Its \<^verbatim>\<open>predict\<close> first makes an input of one
  dimension a column, then refuses an input whose shape is not the declared one, and
  evaluates the model on batches of 32 rows. The harness hands it one control row; inputs
  that differ in their number of rows, or have none, are refused here as well.
\<close>

definition at_least_2d :: "ndarray \<Rightarrow> ndarray" where
  "at_least_2d a = (if length (shape a) = 1 then expand_dims a 1 else a)"

definition rows :: "ndarray \<Rightarrow> matrix" where
  "rows a =
     (let c = shape a ! 1
      in map (\<lambda>i. take c (drop (i * c) (data a))) [0 ..< shape a ! 0])"

definition of_rows :: "nat \<Rightarrow> matrix \<Rightarrow> ndarray" where
  "of_rows c m = NDArray [length m, c] (concat m)"

definition batches :: "nat \<Rightarrow> 'a list \<Rightarrow> 'a list list" where
  "batches n xs = map (\<lambda>i. take n (drop (i * n) xs)) [0 ..< (length xs + n - 1) div n]"

definition predict_on_batch :: "matrix \<Rightarrow> py_error + matrix \<times> matrix" where
  "predict_on_batch combined_inputs =
     (case pendulum_dynamics combined_inputs of
        Inl e \<Rightarrow> Inl e
      | Inr new_x \<Rightarrow>
          (case pendulum_cost combined_inputs of
             Inl e \<Rightarrow> Inl e
           | Inr cost \<Rightarrow> Inr (new_x, cost)))"

fun predict_batches :: "matrix list \<Rightarrow> py_error + matrix \<times> matrix" where
  "predict_batches [] = Inr ([], [])"
| "predict_batches (b # bs) =
     (case predict_on_batch b of
        Inl e \<Rightarrow> Inl e
      | Inr (new_x, cost) \<Rightarrow>
          (case predict_batches bs of
             Inl e \<Rightarrow> Inl e
           | Inr (new_xs, costs) \<Rightarrow> Inr (new_x @ new_xs, cost @ costs)))"

definition predict :: "ndarray \<Rightarrow> ndarray \<Rightarrow> py_error + ndarray \<times> ndarray" where
  "predict x_data u_data =
     (let x = at_least_2d x_data;
          u = at_least_2d u_data
      in if length (shape x) = 2 \<and> shape x ! 1 = 2
            \<and> length (shape u) = 2 \<and> shape u ! 1 = 1
            \<and> shape x ! 0 = shape u ! 0 \<and> 0 < shape x ! 0
         then (case predict_batches (batches 32 (concatenate (rows x) (rows u))) of
                 Inl e \<Rightarrow> Inl e
               | Inr (new_x, cost) \<Rightarrow> Inr (of_rows 2 new_x, of_rows 1 cost))
         else Inl ValueError)"

record pendulum =
  x_dim :: nat
  u_dim :: nat
  r_dim :: nat
  mdl :: "ndarray \<Rightarrow> ndarray \<Rightarrow> py_error + ndarray \<times> ndarray"

text \<open>
  The constructor keeps the three dimensions and the model. It also prints the model's
  prediction on a fixed sample of two rows, which does not raise (\<open>self_test\<close>
  below).
\<close>

definition Pendulum :: "nat \<Rightarrow> nat \<Rightarrow> nat \<Rightarrow> pendulum" where
  "Pendulum xd ud rd = \<lparr> x_dim = xd, u_dim = ud, r_dim = rd, mdl = predict \<rparr>"

subsection \<open>The reference simulator\<close>

text \<open>
  The simulator is not part of the repository: the harness is modelled for any simulator,
  given by the four operations the harness calls. The simulator's state \<open>'e\<close> holds
  everything it mutates, the random generators of \<^verbatim>\<open>reset\<close> and of the action space
  included. \<^verbatim>\<open>env.state\<close>, the observation and a sampled action are arrays of one
  dimension; the reward is a float.
\<close>

record 'e gym =
  env_reset :: "'e \<Rightarrow> real list \<times> 'e"
  env_state :: "'e \<Rightarrow> real list"
  action_space_sample :: "'e \<Rightarrow> real list \<times> 'e"
  env_step :: "real list \<Rightarrow> 'e \<Rightarrow> (real list \<times> real) \<times> 'e"

subsection \<open>\<^verbatim>\<open>compare_to_gym\<close> and \<^verbatim>\<open>compare_to_gym_batched\<close>\<close>

text \<open>
  The harness returns nothing: what it does is what it prints. A step prints its index and
  its two squared errors, and its flags; the run ends with the two totals.
\<close>

record step_report =
  tidx :: nat
  state_diff :: real
  loss_diff :: real
  flag_state :: bool
  flag_loss :: bool

record report =
  steps :: "step_report list"
  total_state_diff :: real
  total_loss_diff :: real

definition no_steps :: report where
  "no_steps = \<lparr> steps = [], total_state_diff = 0, total_loss_diff = 0 \<rparr>"

text \<open>
  One turn of the loop, the same text in both harnesses but for the array \<open>x_in\<close> handed
  to \<^verbatim>\<open>predict\<close>. It returns \<^verbatim>\<open>env_x_t1\<close>, the simulator and the report so far.
\<close>

definition compare_step ::
  "'e gym \<Rightarrow> pendulum \<Rightarrow> ndarray \<Rightarrow> nat \<Rightarrow> 'e \<Rightarrow> report \<Rightarrow> py_error + real list \<times> 'e \<times> report"
where
  "compare_step env self x_in i e rep =
     (let (u_t, e1) = action_space_sample env e;
          ((env_obs_t1, env_loss_t), e2) = env_step env u_t e1;
          env_x_t1 = env_state env e2
      in case mdl self x_in (expand_dims (np_array u_t) 0) of
           Inl err \<Rightarrow> Inl err
         | Inr (k_x_t1, k_loss_t) \<Rightarrow>
             (case np_binop (-) (squeeze (np_array env_x_t1)) (squeeze k_x_t1) of
                Inl err \<Rightarrow> Inl err
              | Inr dx \<Rightarrow>
                  (case np_binop (+) (squeeze (np_float env_loss_t)) (squeeze k_loss_t) of
                     Inl err \<Rightarrow> Inl err
                   | Inr dl \<Rightarrow>
                       (let sd = np_sum (np_square dx);
                            ld = np_sum (np_square dl)
                        in Inr (env_x_t1, e2,
                                \<lparr> steps = steps rep @
                                    [\<lparr> tidx = i, state_diff = sd, loss_diff = ld,
                                       flag_state = (sd \<ge> float32_eps),
                                       flag_loss = (ld \<ge> float32_eps) \<rparr>],
                                  total_state_diff =
                                    (if sd \<ge> float32_eps then total_state_diff rep + sd
                                     else total_state_diff rep),
                                  total_loss_diff =
                                    (if ld \<ge> float32_eps then total_loss_diff rep + ld
                                     else total_loss_diff rep) \<rparr>)))))"

text \<open>
  The loop of \<^verbatim>\<open>compare_to_gym\<close>: it hands \<^verbatim>\<open>x_t.T\<close> to \<^verbatim>\<open>predict\<close> and goes on with
  \<^verbatim>\<open>x_t = env_x_t1\<close>, an array of one dimension.
\<close>

fun compare_to_gym_loop ::
  "'e gym \<Rightarrow> pendulum \<Rightarrow> nat list \<Rightarrow> ndarray \<Rightarrow> 'e \<Rightarrow> report \<Rightarrow> py_error + report"
where
  "compare_to_gym_loop env self [] x_t e rep = Inr rep"
| "compare_to_gym_loop env self (i # is) x_t e rep =
     (case compare_step env self (np_T x_t) i e rep of
        Inl err \<Rightarrow> Inl err
      | Inr (env_x_t1, e', rep') \<Rightarrow>
          compare_to_gym_loop env self is (np_array env_x_t1) e' rep')"

definition compare_to_gym :: "'e gym \<Rightarrow> pendulum \<Rightarrow> 'e \<Rightarrow> nat \<Rightarrow> py_error + report" where
  "compare_to_gym env self e time_steps =
     (let (obs_t, e1) = env_reset env e;
          x_t = expand_dims (np_array (env_state env e1)) 1
      in compare_to_gym_loop env self [0 ..< time_steps] x_t e1 no_steps)"

text \<open>
  The loop of \<^verbatim>\<open>compare_to_gym_batched\<close>: it hands \<^verbatim>\<open>x_t\<close> to \<^verbatim>\<open>predict\<close> and goes on
  with \<^verbatim>\<open>x_t = np.expand_dims(env_x_t1, axis=0)\<close>, one row.
\<close>

fun compare_to_gym_batched_loop ::
  "'e gym \<Rightarrow> pendulum \<Rightarrow> nat list \<Rightarrow> ndarray \<Rightarrow> 'e \<Rightarrow> report \<Rightarrow> py_error + report"
where
  "compare_to_gym_batched_loop env self [] x_t e rep = Inr rep"
| "compare_to_gym_batched_loop env self (i # is) x_t e rep =
     (case compare_step env self x_t i e rep of
        Inl err \<Rightarrow> Inl err
      | Inr (env_x_t1, e', rep') \<Rightarrow>
          compare_to_gym_batched_loop env self is (expand_dims (np_array env_x_t1) 0) e' rep')"

text \<open>
  Filling \<^verbatim>\<open>us\<close>: one sample of the action space per entry. Storing an array that does
  not hold exactly one number into an entry raises.
\<close>

fun sample_us :: "'e gym \<Rightarrow> nat \<Rightarrow> 'e \<Rightarrow> py_error + 'e" where
  "sample_us env 0 e = Inr e"
| "sample_us env (Suc n) e =
     (let (u, e') = action_space_sample env e
      in if length u = 1 then sample_us env n e' else Inl ValueError)"

text \<open>
  \<^verbatim>\<open>obs\<close> and \<^verbatim>\<open>xs\<close> have the shape \<open>(batch_size, time_steps, _)\<close>; the stores
  \<^verbatim>\<open>obs[0, 0] = o_t\<close> and \<^verbatim>\<open>xs[0, 0] = x_t\<close> raise when one of the two is 0. The simulator
  is reset a second time before the loop.
\<close>

definition compare_to_gym_batched ::
  "'e gym \<Rightarrow> pendulum \<Rightarrow> 'e \<Rightarrow> nat \<Rightarrow> nat \<Rightarrow> py_error + report"
where
  "compare_to_gym_batched env self e batch_size time_steps =
     (let (o_t, e1) = env_reset env e;
          total_us = batch_size * time_steps
      in case sample_us env total_us e1 of
           Inl err \<Rightarrow> Inl err
         | Inr e2 \<Rightarrow>
             if batch_size = 0 \<or> time_steps = 0 then Inl IndexError
             else (let (obs_t, e3) = env_reset env e2;
                       x_t = expand_dims (np_array (env_state env e3)) 0
                   in compare_to_gym_batched_loop env self [0 ..< time_steps] x_t e3
                        no_steps))"

text \<open>
  What both loops keep true of the report: a total holds the squared errors of the flagged
  steps, and a step is flagged when its squared error is at least the epsilon.
\<close>

definition gated :: "report \<Rightarrow> bool" where
  "gated rep \<longleftrightarrow>
     total_state_diff rep
       = (\<Sum>s\<leftarrow>steps rep. if state_diff s \<ge> float32_eps then state_diff s else 0)
     \<and> total_loss_diff rep
       = (\<Sum>s\<leftarrow>steps rep. if loss_diff s \<ge> float32_eps then loss_diff s else 0)
     \<and> list_all (\<lambda>s. flag_state s = (state_diff s \<ge> float32_eps)
                    \<and> flag_loss s = (loss_diff s \<ge> float32_eps)) (steps rep)"

text \<open>
  A simulator to run the harness on: it rests at the state \<open>(0, 0)\<close> whatever the control,
  gives the reward 0 and always samples the control \<open>u\<close>.
\<close>

definition resting_env :: "real \<Rightarrow> unit gym" where
  "resting_env u =
     \<lparr> env_reset = (\<lambda>e. ([1, 0, 0], e)),
       env_state = (\<lambda>e. [0, 0]),
       action_space_sample = (\<lambda>e. ([u], e)),
       env_step = (\<lambda>u_t e. (([1, 0, 0], 0), e)) \<rparr>"

section \<open>Properties\<close>

lemma item_single_row:
  "item (cols_to 2 [[a, b, c]]) 0 0 = Inr a" "item (cols_to 2 [[a, b, c]]) 0 (Suc 0) = Inr b"
  by (simp_all add: item_def cols_to_def)

text \<open>
  C1. For every state \<open>(\<theta>, \<theta>')\<close> and control \<open>u\<close>, the integrator returns the new
  velocity \<open>\<theta>' + (-(3g)/(2l) sin(\<theta> + \<pi>) + 3/(m l\<^sup>2) u) \<Delta>t\<close> and the new angle
  \<open>\<theta> + new velocity \<Delta>t\<close>, in this order angle, velocity, with \<open>g = 10\<close>, \<open>l = 1\<close>,
  \<open>m = 1\<close>, \<open>\<Delta>t = 0.05\<close>.
\<close>

theorem pendulum_dynamics_formula:
  "pendulum_dynamics [[th, thdot, u]] =
     Inr [[th + (thdot + (- (3 * 10) / (2 * 1) * sin (th + pi) + 3 / (1 * 1\<^sup>2) * u) * 0.05) * 0.05,
           thdot + (- (3 * 10) / (2 * 1) * sin (th + pi) + 3 / (1 * 1\<^sup>2) * u) * 0.05]]"
  by (simp add: pendulum_dynamics_def item_single_row cols_from_def broadcast_def
      concatenate_def square_def Let_def)

text \<open>
  C2. For every state \<open>(\<theta>, \<theta>')\<close> and control \<open>u\<close>, the cost is
  \<open>n\<^sup>2 + 0.1 \<theta>'\<^sup>2 + 0.001 u\<^sup>2\<close> where \<open>n = ((\<theta> + \<pi>) mod 2\<pi>) - \<pi>\<close>, the modulo being
  the floored one.
\<close>

theorem pendulum_cost_formula:
  "pendulum_cost [[th, thdot, u]] =
     Inr [[(((th + pi) - 2 * pi * of_int \<lfloor>(th + pi) / (2 * pi)\<rfloor>) - pi)\<^sup>2
           + 0.1 * thdot\<^sup>2 + 0.001 * u\<^sup>2]]"
  by (simp add: pendulum_cost_def item_single_row cols_from_def broadcast_def
      normalized_angle_def floormod_def square_def power2_eq_square Let_def)

text \<open>
  C5 as stated fails: the floored modulo lies in \<open>[0, 2\<pi>)\<close>, so the normalized angle
  lies in \<open>[-\<pi>, \<pi>)\<close>. At \<open>\<theta> = \<pi>\<close> it is \<open>-\<pi>\<close>, outside \<open>(-\<pi>, \<pi>]\<close>.
\<close>

theorem normalized_angle_at_pi:
  "normalized_angle pi = - pi
   \<and> \<not> (- pi < normalized_angle pi \<and> normalized_angle pi \<le> pi)"
  by (simp add: normalized_angle_def floormod_def)

lemma floormod_range: "0 < b \<Longrightarrow> 0 \<le> floormod a b \<and> floormod a b < b"
  using floor_divide_lower [of b a] floor_divide_upper [of b a]
  by (simp add: floormod_def algebra_simps)

text \<open>
  C5, amended. For every real angle \<open>\<theta>\<close>, the normalized angle \<open>((\<theta> + \<pi>) mod 2\<pi>) - \<pi>\<close> that
  the cost function computes lies in the half-open interval \<open>[-\<pi>, \<pi>)\<close>.
\<close>

theorem normalized_angle_range:
  "- pi \<le> normalized_angle th \<and> normalized_angle th < pi"
  using floormod_range [of "2 * pi" "th + pi"] by (simp add: normalized_angle_def)

lemma item_state_row:
  "item [[a, b]] 0 0 = Inr a" "item [[a, b]] 0 (Suc 0) = Inr b"
  by (simp_all add: item_def)

text \<open>
  C6 as stated fails: a state of one row has fewer than 2 rows, and the checker answers it
  with a boolean, without stopping in the debugger.
\<close>

theorem goal_checker_one_row_not_rejected:
  "length [[0, 0::real]] < 2
   \<and> pendulum_goal_checker [[0, 0]] = \<lparr> debugger = False, answer = Inr True \<rparr>"
  by (simp add: pendulum_goal_checker_def item_state_row float32_eps_def)

text \<open>
  C6, amended. The checker stops in the interactive debugger exactly when the state has 2
  rows. A state with no row is rejected with an IndexError; a state of one row
  \<open>(\<theta>, \<theta>')\<close> is not rejected: the checker answers with a boolean and never stops in the
  debugger.
\<close>

theorem goal_checker_debugger:
  "debugger (pendulum_goal_checker x) = (length x = 2)
   \<and> answer (pendulum_goal_checker []) = Inl IndexError
   \<and> (\<exists>b. pendulum_goal_checker [[th, thdot]] = \<lparr> debugger = False, answer = Inr b \<rparr>)"
  by (auto simp add: pendulum_goal_checker_def item_state_row item_def)

text \<open>
  C7. On a state \<open>(\<theta>, \<theta>')\<close> the checker answers true exactly when
  \<open>1 - cos \<theta> \<le> eps\<close> (single precision) and \<open>\<theta>' = 0\<close>; it answers true on \<open>(0, 0)\<close> and
  \<open>(2\<pi>, 0)\<close>, false on \<open>(\<pi>, 0)\<close>.
\<close>

theorem goal_checker_iff:
  "pendulum_goal_checker [[th, thdot]] =
     \<lparr> debugger = False, answer = Inr (1 - cos th \<le> float32_eps \<and> thdot = 0) \<rparr>
   \<and> answer (pendulum_goal_checker [[0, 0]]) = Inr True
   \<and> answer (pendulum_goal_checker [[2 * pi, 0]]) = Inr True
   \<and> answer (pendulum_goal_checker [[pi, 0]]) = Inr False"
  by (simp add: pendulum_goal_checker_def item_state_row float32_eps_def)

text \<open>
  C9. The dynamics and the cost read the angle and the angular velocity from the first row
  only: two batches with the same first state row and the same control columns give the
  same output, whatever the state in their other rows.
\<close>

theorem first_row_only:
  assumes "map (take 2) (take 1 xc1) = map (take 2) (take 1 xc2)"
    and "map (drop 2) xc1 = map (drop 2) xc2"
  shows "pendulum_dynamics xc1 = pendulum_dynamics xc2 \<and> pendulum_cost xc1 = pendulum_cost xc2"
proof -
  have i: "item (cols_to 2 xc1) 0 j = item (cols_to 2 xc2) 0 j" for j
  proof (cases xc1)
    case Nil
    with assms(2) show ?thesis by (simp add: item_def cols_to_def)
  next
    case (Cons r rs)
    with assms(2) obtain r' rs' where "xc2 = r' # rs'" by (cases xc2) auto
    with Cons assms(1) show ?thesis by (simp add: item_def cols_to_def)
  qed
  show ?thesis
    using assms(2)
    by (simp add: pendulum_dynamics_def pendulum_cost_def cols_from_def i Let_def
        cong: sum.case_cong)
qed

theorem first_row_only_witness:
  "map (take 2) (take 1 [[0, 0, 1], [5, 6, 2::real]])
     = map (take 2) (take 1 [[0, 0, 1], [7, 8, 2]])
   \<and> map (drop 2) [[0, 0, 1], [5, 6, 2::real]] = map (drop 2) [[0, 0, 1], [7, 8, 2]]
   \<and> pendulum_dynamics [[0, 0, 1], [5, 6, 2]] = pendulum_dynamics [[0, 0, 1], [7, 8, 2]]
   \<and> pendulum_cost [[0, 0, 1], [5, 6, 2]] = pendulum_cost [[0, 0, 1], [7, 8, 2]]"
proof -
  have h1: "map (take 2) (take 1 [[0, 0, 1], [5, 6, 2::real]])
              = map (take 2) (take 1 [[0, 0, 1], [7, 8, 2]])"
    by simp
  have h2: "map (drop 2) [[0, 0, 1], [5, 6, 2::real]] = map (drop 2) [[0, 0, 1], [7, 8, 2]]"
    by simp
  show ?thesis using first_row_only [OF h1 h2] h1 h2 by blast
qed

text \<open>
  C10. Every state the goal generator can produce, the one row \<open>(2\<pi>k, 0)\<close> for a draw
  \<open>k\<close> of \<open>-3, \<dots>, 3\<close>, is answered true by the checker, which does not stop in the
  debugger on it.
\<close>

theorem goal_generator_accepted:
  "k \<in> randint (- 3) 4 \<Longrightarrow>
   pendulum_goal_checker (pendulum_goal_generator k)
     = \<lparr> debugger = False, answer = Inr True \<rparr>"
  by (simp add: pendulum_goal_checker_def pendulum_goal_generator_def item_state_row
      float32_eps_def)

theorem goal_generator_accepted_witness:
  "(3::int) \<in> randint (- 3) 4
   \<and> pendulum_goal_checker (pendulum_goal_generator 3)
       = \<lparr> debugger = False, answer = Inr True \<rparr>"
  using goal_generator_accepted [of 3] by (simp add: randint_def)

lemma pendulum_cost_value:
  "pendulum_cost [[th, thdot, u]] =
     Inr [[square (normalized_angle th) + 0.1 * square thdot + 0.001 * square u]]"
  by (simp add: pendulum_cost_def item_single_row cols_from_def broadcast_def Let_def)

text \<open>
  C8 as stated fails: the angular velocity \<open>2\<^sup>7\<^sup>0\<close> is a finite single-precision number,
  and the cost of the state \<open>(0, 2\<^sup>7\<^sup>0)\<close> under the control 0 is \<open>2\<^sup>1\<^sup>4\<^sup>0 / 10\<close>, beyond the
  largest finite single-precision number (already the square \<open>2\<^sup>1\<^sup>4\<^sup>0\<close> is).
\<close>

theorem cost_beyond_float32:
  "float32_finite 0 \<and> float32_finite (2 ^ 70)
   \<and> pendulum_cost [[0, 2 ^ 70, 0]] = Inr [[2 ^ 140 / 10]]
   \<and> \<not> float32_finite (square (2 ^ 70))
   \<and> \<not> float32_finite (2 ^ 140 / 10)"
  by (simp add: pendulum_cost_value square_def normalized_angle_def floormod_def
      float32_finite_def float32_max_def)

text \<open>
  C8, amended. For every state \<open>(\<theta>, \<theta>')\<close> and control \<open>u\<close>, the cost function returns a
  value greater than or equal to 0.
\<close>

theorem pendulum_cost_nonneg:
  "\<exists>c. pendulum_cost [[th, thdot, u]] = Inr [[c]] \<and> 0 \<le> c"
  by (simp add: pendulum_cost_value square_def)

subsection \<open>The harness\<close>

lemma upt_small: "[0 ..< 2] = [0, Suc 0]" "[0 ..< Suc 0] = [0]"
  by (simp_all add: upt_rec)

lemma gated_no_steps: "gated no_steps"
  by (simp add: gated_def no_steps_def)

lemma compare_step_gated:
  assumes "compare_step env self x_in i e rep = Inr (x', e', rep')" and "gated rep"
  shows "gated rep' \<and> map tidx (steps rep') = map tidx (steps rep) @ [i]"
  using assms
  by (auto simp add: compare_step_def gated_def Let_def
      split: prod.splits sum.splits if_splits)

lemma compare_to_gym_loop_gated:
  "compare_to_gym_loop env self is x_t e rep = Inr r \<Longrightarrow> gated rep \<Longrightarrow>
   gated r \<and> map tidx (steps r) = map tidx (steps rep) @ is"
proof (induction "is" arbitrary: x_t e rep)
  case Nil
  then show ?case by simp
next
  case (Cons i "is")
  from Cons.prems(1) obtain x' e' rep' where
    st: "compare_step env self (np_T x_t) i e rep = Inr (x', e', rep')"
    and lp: "compare_to_gym_loop env self is (np_array x') e' rep' = Inr r"
    by (auto split: sum.splits)
  from compare_step_gated [OF st Cons.prems(2)]
  have g: "gated rep'" and t: "map tidx (steps rep') = map tidx (steps rep) @ [i]"
    by simp_all
  from Cons.IH [OF lp g] t show ?case by simp
qed

text \<open>The pieces of one turn of the loop on a state of two entries and one control.\<close>

lemma first_state_row:
  "np_T (expand_dims (np_array [a, b]) (Suc 0)) = NDArray [Suc 0, 2] [a, b]"
  by (simp add: np_array_def expand_dims_def np_T_def ravel_def upt_small)

lemma later_state_vector: "np_T (np_array [a, b]) = NDArray [2] [a, b]"
  by (simp add: np_array_def np_T_def ravel_def upt_small)

lemma state_row: "expand_dims (np_array [a, b]) 0 = NDArray [Suc 0, 2] [a, b]"
  by (simp add: np_array_def expand_dims_def)

lemma control_row: "expand_dims (np_array [u]) 0 = NDArray [Suc 0, Suc 0] [u]"
  by (simp add: np_array_def expand_dims_def)

lemma state_error:
  "np_binop (-) (squeeze (np_array [a, b])) (squeeze (NDArray [Suc 0, 2] [c, d]))
     = Inr (NDArray [2] [a - c, b - d])"
  by (simp add: np_array_def squeeze_def np_binop_def broadcast_shape_def pad_shape_def
      broadcast_get_def ravel_def upt_small)

lemma loss_error:
  "np_binop (+) (squeeze (np_float r)) (squeeze (NDArray [Suc 0, Suc 0] [c]))
     = Inr (NDArray [] [r + c])"
  by (simp add: np_float_def squeeze_def np_binop_def broadcast_shape_def pad_shape_def
      broadcast_get_def ravel_def upt_small)

lemma predict_one_row:
  "predict (NDArray [Suc 0, 2] [th, thdot]) (NDArray [Suc 0, Suc 0] [u]) =
     (case predict_on_batch [[th, thdot, u]] of
        Inl e \<Rightarrow> Inl e
      | Inr (new_x, cost) \<Rightarrow> Inr (of_rows 2 new_x, of_rows 1 cost))"
  by (simp add: predict_def at_least_2d_def rows_def batches_def concatenate_def upt_small
      split: sum.splits)

text \<open>A state of one dimension becomes a column of two rows, which the model refuses.\<close>

lemma predict_vector: "predict (NDArray [2] [a, b]) u = Inl ValueError"
  by (simp add: predict_def at_least_2d_def expand_dims_def)

lemma self_test:
  "\<exists>r. predict (NDArray [2, 2] [1, 1, 2, 2]) (NDArray [2, Suc 0] [1, 2]) = Inr r"
  by (simp add: predict_def at_least_2d_def rows_def batches_def concatenate_def upt_rec
      predict_on_batch_def pendulum_dynamics_def pendulum_cost_def item_def cols_to_def
      Let_def)

lemma predict_at_rest:
  "predict (NDArray [Suc 0, 2] [0, 0]) (NDArray [Suc 0, Suc 0] [u]) =
     Inr (NDArray [Suc 0, 2] [3 * u / 400, 3 * u / 20], NDArray [Suc 0, Suc 0] [u * u / 1000])"
  by (simp add: predict_one_row predict_on_batch_def pendulum_dynamics_def pendulum_cost_def
      item_single_row cols_from_def broadcast_def concatenate_def square_def Let_def
      normalized_angle_def floormod_def of_rows_def)

lemma resting_env_simps:
  "env_reset (resting_env u) e = ([1, 0, 0], e)"
  "env_state (resting_env u) e = [0, 0]"
  "action_space_sample (resting_env u) e = ([u], e)"
  "env_step (resting_env u) u_t e = (([1, 0, 0], 0), e)"
  by (simp_all add: resting_env_def)

lemma square_minus: "square (- v) = square v"
  by (simp add: square_def)

lemma sample_us_resting: "sample_us (resting_env u) n e = Inr e"
  by (induction n) (simp_all add: resting_env_simps)

lemma step_at_rest:
  "compare_step (resting_env u) (Pendulum xd ud rd) (NDArray [Suc 0, 2] [0, 0]) i () rep =
     Inr ([0, 0], (),
          \<lparr> steps = steps rep @
              [\<lparr> tidx = i,
                 state_diff = square (3 * u / 400) + square (3 * u / 20),
                 loss_diff = square (u * u / 1000),
                 flag_state = (square (3 * u / 400) + square (3 * u / 20) \<ge> float32_eps),
                 flag_loss = (square (u * u / 1000) \<ge> float32_eps) \<rparr>],
            total_state_diff =
              (if square (3 * u / 400) + square (3 * u / 20) \<ge> float32_eps
               then total_state_diff rep + (square (3 * u / 400) + square (3 * u / 20))
               else total_state_diff rep),
            total_loss_diff =
              (if square (u * u / 1000) \<ge> float32_eps
               then total_loss_diff rep + square (u * u / 1000)
               else total_loss_diff rep) \<rparr>)"
  by (simp add: compare_step_def resting_env_simps Pendulum_def control_row
      predict_at_rest state_error loss_error np_square_def np_sum_def Let_def square_minus)

lemma step_on_vector:
  "compare_step env (Pendulum xd ud rd) (NDArray [2] [a, b]) i e rep = Inl ValueError"
  by (simp add: compare_step_def Pendulum_def predict_vector split: prod.splits)

lemma run_flagged:
  "compare_to_gym (resting_env 1) (Pendulum 2 1 1) () 1 =
     Inr \<lparr> steps = [\<lparr> tidx = 0, state_diff = 3609 / 160000, loss_diff = 1 / 10 ^ 6,
                      flag_state = True, flag_loss = True \<rparr>],
           total_state_diff = 3609 / 160000, total_loss_diff = 1 / 10 ^ 6 \<rparr>"
  by (simp add: compare_to_gym_def resting_env_simps first_state_row no_steps_def
      upt_small step_at_rest square_def float32_eps_def)

text \<open>
  C3 fails on the code. With no time step the single-step harness reports the totals 0
  and 0, and the batched harness with \<open>batch_size = 1\<close> raises at \<^verbatim>\<open>obs[0, 0] = o_t\<close>, for
  every simulator and model. With two time steps, on the resting simulator, the
  single-step harness hands the state of one dimension to \<^verbatim>\<open>predict\<close> at its second turn
  and raises, and the batched harness reports its totals.
\<close>

theorem batched_not_single_step:
  "compare_to_gym env self e 0 = Inr no_steps
   \<and> compare_to_gym_batched env self e 1 0 = Inl IndexError
   \<and> compare_to_gym (resting_env 1) (Pendulum 2 1 1) () 2 = Inl ValueError
   \<and> compare_to_gym_batched (resting_env 1) (Pendulum 2 1 1) () 1 2 =
       Inr \<lparr> steps = [\<lparr> tidx = 0, state_diff = 3609 / 160000, loss_diff = 1 / 10 ^ 6,
                        flag_state = True, flag_loss = True \<rparr>,
                      \<lparr> tidx = 1, state_diff = 3609 / 160000, loss_diff = 1 / 10 ^ 6,
                        flag_state = True, flag_loss = True \<rparr>],
             total_state_diff = 3609 / 80000, total_loss_diff = 2 / 10 ^ 6 \<rparr>"
proof -
  have "compare_to_gym env self e 0 = Inr no_steps"
    by (simp add: compare_to_gym_def split: prod.splits)
  moreover have "compare_to_gym_batched env self e 1 0 = Inl IndexError"
    by (simp add: compare_to_gym_batched_def split: prod.splits)
  moreover have "compare_to_gym (resting_env 1) (Pendulum 2 1 1) () 2 = Inl ValueError"
    by (simp add: compare_to_gym_def resting_env_simps first_state_row no_steps_def
        upt_small step_at_rest later_state_vector step_on_vector)
  moreover have "compare_to_gym_batched (resting_env 1) (Pendulum 2 1 1) () 1 2 =
       Inr \<lparr> steps = [\<lparr> tidx = 0, state_diff = 3609 / 160000, loss_diff = 1 / 10 ^ 6,
                        flag_state = True, flag_loss = True \<rparr>,
                      \<lparr> tidx = 1, state_diff = 3609 / 160000, loss_diff = 1 / 10 ^ 6,
                        flag_state = True, flag_loss = True \<rparr>],
             total_state_diff = 3609 / 80000, total_loss_diff = 2 / 10 ^ 6 \<rparr>"
    by (simp add: compare_to_gym_batched_def resting_env_simps no_steps_def
        sample_us_resting upt_small step_at_rest square_def float32_eps_def state_row)
  ultimately show ?thesis by blast
qed

text \<open>
  C4 as stated fails: a step whose squared error is below the epsilon is printed and not
  added to the total. On the resting simulator with the control \<open>1/1000\<close>, the one step
  has the squared errors \<open>3609/160000000000\<close> and \<open>10\<^sup>-\<^sup>1\<^sup>8\<close>, and both totals are 0.
\<close>

theorem small_errors_not_accumulated:
  "(let r = \<lparr> steps = [\<lparr> tidx = 0, state_diff = 3609 / 160000000000,
                          loss_diff = 1 / 10 ^ 18,
                          flag_state = False, flag_loss = False \<rparr>],
               total_state_diff = 0, total_loss_diff = 0 \<rparr>
    in compare_to_gym (resting_env (1 / 1000)) (Pendulum 2 1 1) () 1 = Inr r
       \<and> total_state_diff r \<noteq> (\<Sum>s\<leftarrow>steps r. state_diff s)
       \<and> total_loss_diff r \<noteq> (\<Sum>s\<leftarrow>steps r. loss_diff s))"
  by (simp add: compare_to_gym_def resting_env_simps first_state_row no_steps_def
      upt_small step_at_rest square_def float32_eps_def)

text \<open>
  C4, amended. In the single-step harness, a run that ends reports one step per time step,
  and each of its two totals is the sum, over the steps whose squared error is at least
  the single-precision epsilon, of that squared error: the steps that are flagged, and
  only they, are accumulated.
\<close>

theorem totals_are_flagged_errors:
  assumes "compare_to_gym env self e time_steps = Inr r"
  shows "map tidx (steps r) = [0 ..< time_steps]
         \<and> total_state_diff r
             = (\<Sum>s\<leftarrow>steps r. if state_diff s \<ge> float32_eps then state_diff s else 0)
         \<and> total_loss_diff r
             = (\<Sum>s\<leftarrow>steps r. if loss_diff s \<ge> float32_eps then loss_diff s else 0)
         \<and> list_all (\<lambda>s. flag_state s = (state_diff s \<ge> float32_eps)
                        \<and> flag_loss s = (loss_diff s \<ge> float32_eps)) (steps r)"
proof -
  from assms obtain x_t e1 where
    "compare_to_gym_loop env self [0 ..< time_steps] x_t e1 no_steps = Inr r"
    by (auto simp add: compare_to_gym_def Let_def split: prod.splits)
  from compare_to_gym_loop_gated [OF this gated_no_steps]
  show ?thesis by (simp add: gated_def no_steps_def)
qed

theorem totals_are_flagged_errors_witness:
  "(let r = \<lparr> steps = [\<lparr> tidx = 0, state_diff = 3609 / 160000, loss_diff = 1 / 10 ^ 6,
                          flag_state = True, flag_loss = True \<rparr>],
               total_state_diff = 3609 / 160000, total_loss_diff = 1 / 10 ^ 6 \<rparr>
    in compare_to_gym (resting_env 1) (Pendulum 2 1 1) () 1 = Inr r
       \<and> map tidx (steps r) = [0 ..< 1]
       \<and> total_state_diff r
           = (\<Sum>s\<leftarrow>steps r. if state_diff s \<ge> float32_eps then state_diff s else 0)
       \<and> total_loss_diff r
           = (\<Sum>s\<leftarrow>steps r. if loss_diff s \<ge> float32_eps then loss_diff s else 0))"
  using totals_are_flagged_errors [OF run_flagged] run_flagged
  by (simp add: Let_def)

end
